theory Spec2Isabelle
  imports Complex_Main
begin

section \<open>Study Assistant backend: data model\<close>

text \<open>
  The embedding follows \<^verbatim>\<open>src/main.py\<close> and \<^verbatim>\<open>src/schemas.py\<close>.

  Numbers. \<^verbatim>\<open>quality\<close>, \<^verbatim>\<open>repetitions\<close> and \<^verbatim>\<open>interval\<close> are Python integers
  (unbounded), modelled as \<open>int\<close>. \<^verbatim>\<open>ease_factor\<close> is a Python float; it is modelled
  as a \<open>real\<close>, so the arithmetic on it is exact: binary rounding, infinities and NaN
  are not part of the model. Timestamps are UTC instants, counted in microseconds (the
  resolution of \<^verbatim>\<open>datetime\<close>) as an \<open>int\<close>; the range limits of \<^verbatim>\<open>datetime\<close> and
  \<^verbatim>\<open>timedelta\<close> are not part of the model.
\<close>

type_synonym timestamp = int

text \<open>
  A \<^verbatim>\<open>bson.ObjectId\<close> is kept as its canonical text, the 24 lower-case hexadecimal
  digits that \<^verbatim>\<open>str\<close> gives back.
\<close>

type_synonym oid = string

datatype error =
    HTTPException int string  \<comment> \<open>status code and detail\<close>
  | InvalidId                 \<comment> \<open>\<^verbatim>\<open>bson.errors.InvalidId\<close>, not caught by any handler\<close>

text \<open>\<^verbatim>\<open>class Deck(BaseModel)\<close>\<close>

record Deck =
  name :: string
  description :: "string option"

text \<open>\<^verbatim>\<open>class Card(BaseModel)\<close>, with the defaults of the schema in \<open>new_Card\<close>.\<close>

record Card =
  deck_id :: string
  front :: string
  "back" :: string
  ease_factor :: real
  interval :: int
  repetitions :: int
  next_review :: "timestamp option"
  last_reviewed :: "timestamp option"

definition new_Card :: "string \<Rightarrow> string \<Rightarrow> string \<Rightarrow> Card" where
  "new_Card d f b =
     \<lparr>deck_id = d, front = f, back = b, ease_factor = 2.5, interval = 0,
      repetitions = 0, next_review = None, last_reviewed = None\<rparr>"

text \<open>\<^verbatim>\<open>class CardReview(BaseModel)\<close>\<close>

record CardReview =
  card_id :: string
  quality :: int

section \<open>The document store\<close>

text \<open>
  \<^verbatim>\<open>ObjectId(s)\<close> on a \<^verbatim>\<open>str\<close>: the text of an id is 24 hexadecimal digits; any
  other string raises \<^verbatim>\<open>InvalidId\<close>. Two ids are equal when their twelve bytes are,
  so the digits are read without regard to case.
\<close>

definition hexdigit :: "char \<Rightarrow> bool" where
  "hexdigit c = (c \<in> set ''0123456789abcdefABCDEF'')"

definition lower_hex :: "char \<Rightarrow> char" where
  "lower_hex c =
     (if c = CHR ''A'' then CHR ''a'' else if c = CHR ''B'' then CHR ''b''
      else if c = CHR ''C'' then CHR ''c'' else if c = CHR ''D'' then CHR ''d''
      else if c = CHR ''E'' then CHR ''e'' else if c = CHR ''F'' then CHR ''f''
      else c)"

definition ObjectId :: "string \<Rightarrow> error + oid" where
  "ObjectId s =
     (if length s = 24 \<and> list_all hexdigit s then Inr (map lower_hex s) else Inl InvalidId)"

text \<open>
  A document of the collection \<^verbatim>\<open>deck\<close> and one of the collection \<^verbatim>\<open>card\<close>: the
  fields of the schema and the key \<^verbatim>\<open>_id\<close> of the store. \<^verbatim>\<open>review_card\<close> reads the
  three numbers of a card with \<^verbatim>\<open>doc.get(key, default)\<close>, so a card document may lack
  them: \<open>None\<close> is the absent key. For the two timestamps \<open>None\<close> is the absent key
  or the stored \<^verbatim>\<open>None\<close>, which \<^verbatim>\<open>it.get("next_review")\<close> does not tell apart.
\<close>

record deck_doc =
  deck_oid :: oid
  deck_name :: string
  deck_description :: "string option"

record card_doc =
  d_id :: oid
  d_deck_id :: string
  d_front :: string
  d_back :: string
  d_ease_factor :: "real option"
  d_interval :: "int option"
  d_repetitions :: "int option"
  d_next_review :: "timestamp option"
  d_last_reviewed :: "timestamp option"

text \<open>The global \<^verbatim>\<open>db\<close>, with the two collections that the card handlers use.\<close>

record db =
  deck_collection :: "deck_doc list"
  card_collection :: "card_doc list"

text \<open>
  \<^verbatim>\<open>count_documents\<close>, \<^verbatim>\<open>find_one\<close> and \<^verbatim>\<open>update_one\<close> of a collection, for a filter
  given as a predicate: the number of matching documents, the first of them, and the
  collection with the first of them changed.
\<close>

definition count_documents :: "('a \<Rightarrow> bool) \<Rightarrow> 'a list \<Rightarrow> nat" where
  "count_documents flt coll = length (filter flt coll)"

definition find_one :: "('a \<Rightarrow> bool) \<Rightarrow> 'a list \<Rightarrow> 'a option" where
  "find_one flt coll = find flt coll"

fun update_one :: "('a \<Rightarrow> bool) \<Rightarrow> ('a \<Rightarrow> 'a) \<Rightarrow> 'a list \<Rightarrow> 'a list" where
  "update_one flt upd [] = []"
| "update_one flt upd (d # coll) =
     (if flt d then upd d # coll else d # update_one flt upd coll)"

text \<open>
  Modelled from the spec: \<^verbatim>\<open>create_document\<close> and \<^verbatim>\<open>get_documents\<close> of the module
  \<^verbatim>\<open>database\<close>, which is not among the sources. The spec gives the store as
  ``insert returns generated id'' and ``query by filter returns matching records'',
  in insertion order. The id that the store generates is the argument \<open>new_id\<close>; the
  result of \<^verbatim>\<open>create_document\<close> is its text. The query of \<^verbatim>\<open>list_cards\<close> is either
  empty or \<^verbatim>\<open>{"deck_id": v}\<close>: \<open>None\<close> and \<open>Some v\<close>.
\<close>

definition create_document_card :: "db \<Rightarrow> oid \<Rightarrow> Card \<Rightarrow> string \<times> db" where
  "create_document_card s new_id c =
     (new_id,
      s\<lparr>card_collection := card_collection s @
         [\<lparr>d_id = new_id, d_deck_id = deck_id c, d_front = front c, d_back = back c,
           d_ease_factor = Some (ease_factor c), d_interval = Some (interval c),
           d_repetitions = Some (repetitions c), d_next_review = next_review c,
           d_last_reviewed = last_reviewed c\<rparr>]\<rparr>)"

definition get_documents_card :: "db \<Rightarrow> string option \<Rightarrow> card_doc list" where
  "get_documents_card s q =
     (case q of None \<Rightarrow> card_collection s
      | Some v \<Rightarrow> filter (\<lambda>d. d_deck_id d = v) (card_collection s))"

section \<open>Card endpoints\<close>

text \<open>
  \<^verbatim>\<open>create_card\<close>. The result is the error raised or the id returned, and the store
  as the call leaves it.
\<close>

definition create_card :: "db \<Rightarrow> oid \<Rightarrow> Card \<Rightarrow> (error + string) \<times> db" where
  "create_card s new_id c =
     (case ObjectId (deck_id c) of
        Inl e \<Rightarrow> (Inl e, s)
      | Inr x \<Rightarrow>
          if count_documents (\<lambda>d. deck_oid d = x) (deck_collection s) = 0
          then (Inl (HTTPException 404 ''Deck not found''), s)
          else (case create_document_card s new_id c of (i, s') \<Rightarrow> (Inr i, s')))"

text \<open>
  \<^verbatim>\<open>list_cards\<close>. The loop over \<^verbatim>\<open>items\<close> appends to \<^verbatim>\<open>result\<close>. The line
  \<^verbatim>\<open>it["id"] = str(it.pop("_id"))\<close> renames the key of the id and turns the id into
  its text, which \<open>d_id\<close> already is. An absent or empty \<^verbatim>\<open>deck_id\<close> is false in
  \<^verbatim>\<open>if deck_id:\<close> and leaves the query empty. \<open>now\<close> is the clock of line 108.
  The timestamps that the store gives back are taken as UTC instants, which
  \<^verbatim>\<open>next_review <= now\<close> can compare with the clock; whether the client of the store
  is set up so is decided in the module \<^verbatim>\<open>database\<close>.
\<close>

fun list_cards_loop :: "bool \<Rightarrow> timestamp \<Rightarrow> card_doc list \<Rightarrow> card_doc list \<Rightarrow> card_doc list" where
  "list_cards_loop due_only now [] result = result"
| "list_cards_loop due_only now (it # items) result =
     (if due_only then
        (case d_next_review it of
           None \<Rightarrow> list_cards_loop due_only now items (result @ [it])
         | Some nr \<Rightarrow>
             if nr \<le> now then list_cards_loop due_only now items (result @ [it])
             else list_cards_loop due_only now items result)
      else list_cards_loop due_only now items (result @ [it]))"

definition list_cards :: "db \<Rightarrow> string option \<Rightarrow> bool \<Rightarrow> timestamp \<Rightarrow> card_doc list" where
  "list_cards s deck_id' due_only now =
     (let q = (case deck_id' of None \<Rightarrow> None | Some d \<Rightarrow> if d = [] then None else Some d);
          items = get_documents_card s q
      in list_cards_loop due_only now items [])"

section \<open>Review logic (SM-2 simplified)\<close>

text \<open>
  Python 3 \<^verbatim>\<open>round(x)\<close> on a float, without a digit count: the nearest integer,
  a tie going to the even neighbour.
\<close>

definition py_round :: "real \<Rightarrow> int" where
  "py_round x =
     (let f = \<lfloor>x\<rfloor>; d = x - of_int f
      in if d < 1 / 2 then f
         else if 1 / 2 < d then f + 1
         else if even f then f else f + 1)"

text \<open>
  Lines 128 to 145 of \<^verbatim>\<open>review_card\<close>: from the quality of the request and the
  card's \<open>(ease, reps, interval)\<close> to the new \<open>(ease, reps, interval)\<close>. The local
  variables keep their names.
  \<^verbatim>\<open>
    quality = max(0, min(5, payload.quality))
    if quality < 3:
        reps = 0
        interval = 1
    else:
        if reps == 0:
            interval = 1
        elif reps == 1:
            interval = 6
        else:
            interval = int(round(interval * ease)) or 1
        ease = ease + (0.1 - (5 - quality) * (0.08 + (5 - quality) * 0.02))
        ease = max(1.3, ease)
        reps += 1
  \<close>
\<close>

definition review_logic :: "int \<Rightarrow> real \<times> int \<times> int \<Rightarrow> real \<times> int \<times> int" where
  "review_logic payload_quality st =
     (case st of (ease, reps, intv) \<Rightarrow>
        let quality = max 0 (min 5 payload_quality) in
        if quality < 3 then (ease, 0, 1)
        else
          let intv' =
                (if reps = 0 then 1
                 else if reps = 1 then 6
                 else (let r = py_round (of_int intv * ease) in if r = 0 then 1 else r));
              ease' = ease + (0.1 - of_int (5 - quality) * (0.08 + of_int (5 - quality) * 0.02));
              ease'' = max 1.3 ease'
          in (ease'', reps + 1, intv'))"

text \<open>\<^verbatim>\<open>timedelta(days=n)\<close>, in microseconds.\<close>

definition timedelta_days :: "int \<Rightarrow> int" where
  "timedelta_days n = n * 86400000000"

text \<open>The dictionary that \<^verbatim>\<open>review_card\<close> returns.\<close>

record review_result =
  r_id :: string
  r_ease_factor :: real
  r_repetitions :: int
  r_interval :: int
  r_next_review :: timestamp

text \<open>
  \<^verbatim>\<open>review_card\<close>. \<open>now1\<close> is the clock read for \<^verbatim>\<open>next_review\<close> (line 147) and
  \<open>now2\<close> the one read for \<^verbatim>\<open>last_reviewed\<close> (line 155). The result is the error
  raised or the dictionary returned, and the store as the call leaves it.
\<close>

definition review_card ::
  "db \<Rightarrow> CardReview \<Rightarrow> timestamp \<Rightarrow> timestamp \<Rightarrow> (error + review_result) \<times> db" where
  "review_card s payload now1 now2 =
     (case ObjectId (card_id payload) of
        Inl e \<Rightarrow> (Inl e, s)
      | Inr x \<Rightarrow>
          (case find_one (\<lambda>d. d_id d = x) (card_collection s) of
             None \<Rightarrow> (Inl (HTTPException 404 ''Card not found''), s)
           | Some doc \<Rightarrow>
               (case review_logic (quality payload)
                       (case d_ease_factor doc of None \<Rightarrow> 2.5 | Some e \<Rightarrow> e,
                        case d_repetitions doc of None \<Rightarrow> 0 | Some r \<Rightarrow> r,
                        case d_interval doc of None \<Rightarrow> 0 | Some i \<Rightarrow> i) of
                  (ease, reps, intv) \<Rightarrow>
                    let next_rev = now1 + timedelta_days intv in
                    (Inr \<lparr>r_id = card_id payload, r_ease_factor = ease, r_repetitions = reps,
                          r_interval = intv, r_next_review = next_rev\<rparr>,
                     s\<lparr>card_collection :=
                          update_one (\<lambda>d. d_id d = x)
                            (\<lambda>d. d\<lparr>d_ease_factor := Some ease, d_repetitions := Some reps,
                                   d_interval := Some intv, d_last_reviewed := Some now2,
                                   d_next_review := Some next_rev\<rparr>)
                            (card_collection s)\<rparr>))))"

section \<open>A store to evaluate on\<close>

text \<open>
  One deck and three cards of it, each with ease factor 2.5, interval 6 and 2
  repetitions: the first was due at time 50, the second has no \<^verbatim>\<open>next_review\<close>, the
  third is due at time 200.
\<close>

definition demo_card :: "oid \<Rightarrow> timestamp option \<Rightarrow> card_doc" where
  "demo_card i nr =
     \<lparr>d_id = i, d_deck_id = ''0123456789abcdef01234567'', d_front = ''front'',
      d_back = ''back'', d_ease_factor = Some 2.5, d_interval = Some 6,
      d_repetitions = Some 2, d_next_review = nr, d_last_reviewed = None\<rparr>"

definition demo_db :: db where
  "demo_db =
     \<lparr>deck_collection =
        [\<lparr>deck_oid = ''0123456789abcdef01234567'', deck_name = ''deck'',
          deck_description = None\<rparr>],
      card_collection =
        [demo_card ''00000000000000000000000a'' (Some 50),
         demo_card ''00000000000000000000000b'' None,
         demo_card ''00000000000000000000000c'' (Some 200)]\<rparr>"

section \<open>Properties of the review logic\<close>

subsection \<open>The clamp of the quality and the two branches\<close>

lemma clamp_success: "3 \<le> q \<Longrightarrow> max 0 (min 5 q) = min 5 (q::int)"
  by simp

lemma clamp_success_not_lapse: "3 \<le> q \<Longrightarrow> \<not> min 5 q < (3::int)"
  by simp

lemma review_logic_lapse: "q < 3 \<Longrightarrow> review_logic q (ease, reps, intv) = (ease, 0, 1)"
  by (simp add: review_logic_def Let_def)

lemma review_logic_success:
  "3 \<le> q \<Longrightarrow>
   review_logic q (ease, reps, intv) =
     (max 1.3 (ease + (0.1 - of_int (5 - min 5 q) * (0.08 + of_int (5 - min 5 q) * 0.02))),
      reps + 1,
      if reps = 0 then 1 else if reps = 1 then 6
      else if py_round (of_int intv * ease) = 0 then 1 else py_round (of_int intv * ease))"
  unfolding review_logic_def Let_def prod.case clamp_success
  using clamp_success_not_lapse [of q] by simp

subsection \<open>Rounding\<close>

text \<open>
  \<open>py_round\<close> is a rounding to a nearest integer: it keeps the integers, is never
  further than a half from its argument, and gives an even integer at a tie.
\<close>

lemma py_round_of_int: "py_round (of_int n) = n"
  by (simp add: py_round_def Let_def)

lemma py_round_nearest: "\<bar>x - of_int (py_round x)\<bar> \<le> 1 / 2"
  unfolding py_round_def Let_def by (auto simp: abs_if) linarith+

lemma py_round_tie_even: "x - of_int \<lfloor>x\<rfloor> = 1 / 2 \<Longrightarrow> even (py_round x)"
  by (simp add: py_round_def Let_def)

lemma py_round_nonneg: "0 \<le> x \<Longrightarrow> 0 \<le> py_round x"
  unfolding py_round_def Let_def by auto

subsection \<open>The ease factor\<close>




text \<open>
  C2. A card whose ease factor is at least 1.3 has an ease factor of at least 1.3 after
  a review, for every quality: the six of the scale and every integer outside it.
\<close>

theorem ease_factor_floor:
  "1.3 \<le> ease \<Longrightarrow> 1.3 \<le> fst (review_logic q (ease, reps, intv))"
  by (cases "q < 3") (simp_all add: review_logic_lapse review_logic_success)

theorem ease_factor_floor_witness:
  "(1.3::real) \<le> 1.3 \<and> 1.3 \<le> fst (review_logic 3 (1.3, 2, 6))"
  using ease_factor_floor [of "1.3" 3 2 6] by simp

subsection \<open>Repetitions and interval\<close>

text \<open>
  C3. A review with quality below 3 ends with \<open>repetitions = 0\<close> and \<open>interval = 1\<close>,
  whatever the ease factor, the repetitions and the interval of the card were.
\<close>

theorem lapse_resets_progress:
  "q < 3 \<Longrightarrow> snd (review_logic q (ease, reps, intv)) = (0, 1)"
  by (simp add: review_logic_def Let_def)

theorem lapse_resets_progress_witness:
  "(1::int) < 3 \<and> snd (review_logic 1 (2.5, 7, 40)) = (0, 1)"
  using lapse_resets_progress [of 1 "2.5" 7 40] by simp

text \<open>
  C4. From \<open>repetitions = 0\<close> a review with quality 3 or more gives 1 repetition and
  interval 1; from \<open>repetitions = 1\<close> it gives 2 repetitions and interval 6, and so
  does the second of two such reviews in a row. A fresh card (ease factor 2.5,
  no repetition, interval 0) reviewed with quality 5 has ease factor 2.6, 1 repetition
  and interval 1.
\<close>

theorem bootstrap_curve:
  "(3 \<le> q \<longrightarrow> snd (review_logic q (ease, 0, intv)) = (1, 1)) \<and>
   (3 \<le> q \<longrightarrow> snd (review_logic q (ease, 1, intv)) = (2, 6)) \<and>
   (3 \<le> q \<and> 3 \<le> q' \<longrightarrow>
      snd (review_logic q' (review_logic q (ease, 0, intv))) = (2, 6)) \<and>
   review_logic 5 (2.5, 0, 0) = (2.6, 1, 1)"
  by (simp add: review_logic_success)

theorem bootstrap_curve_witness:
  "snd (review_logic 3 (2.5, 0, 0)) = (1, 1) \<and> snd (review_logic 3 (2.5, 1, 1)) = (2, 6) \<and>
   snd (review_logic 4 (review_logic 3 (2.5, 0, 0))) = (2, 6)"
  using bootstrap_curve [of 3 "2.5" 0 4] bootstrap_curve [of 3 "2.5" 1 4]
  by simp



text \<open>
  C7, as the spec states it: the interval after any review is at least 1, whatever the
  card was. The schema takes any integer as \<^verbatim>\<open>interval\<close>: a card with ease factor
  2.5, 2 repetitions and interval \<open>- 2\<close>, reviewed with quality 4, gets the interval
  \<^verbatim>\<open>int(round(-5.0)) or 1\<close>, which is \<open>- 5\<close>.
\<close>

theorem interval_positive_counterexample:
  "\<not> 1 \<le> snd (snd (review_logic 4 (2.5, 2, - 2)))"
  by (simp add: review_logic_success py_round_def)

text \<open>
  C7, amended: for a card whose interval and ease factor are not negative, the interval
  after a review is at least 1, for every quality.
\<close>

theorem interval_positive:
  "0 \<le> intv \<Longrightarrow> 0 \<le> ease \<Longrightarrow> 1 \<le> snd (snd (review_logic q (ease, reps, intv)))"
  using py_round_nonneg [of "of_int intv * ease"]
  by (cases "q < 3") (auto simp add: review_logic_lapse review_logic_success)

theorem interval_positive_witness:
  "(0::int) \<le> 0 \<and> (0::real) \<le> 2.5 \<and> 1 \<le> snd (snd (review_logic 4 (2.5, 2, 0)))"
  using interval_positive [of 0 "2.5" 4 2] by simp

section \<open>Properties of the handlers\<close>

subsection \<open>The review handler\<close>

text \<open>
  What \<^verbatim>\<open>review_card\<close> answers for a card that it finds: the result of the review
  logic on the card's three numbers, and the next review \<open>intv\<close> days after \<open>now1\<close>.
\<close>

lemma review_card_found:
  assumes "ObjectId (card_id p) = Inr x"
    and "find_one (\<lambda>d. d_id d = x) (card_collection s) = Some doc"
    and "review_logic (quality p)
           (case d_ease_factor doc of None \<Rightarrow> 2.5 | Some e \<Rightarrow> e,
            case d_repetitions doc of None \<Rightarrow> 0 | Some r \<Rightarrow> r,
            case d_interval doc of None \<Rightarrow> 0 | Some i \<Rightarrow> i) = (ease, reps, intv)"
  shows "fst (review_card s p now1 now2) =
           Inr \<lparr>r_id = card_id p, r_ease_factor = ease, r_repetitions = reps,
                r_interval = intv, r_next_review = now1 + timedelta_days intv\<rparr>"
  using assms by (simp add: review_card_def Let_def)

lemma review_logic_clamp: "review_logic (max 0 (min 5 q)) st = review_logic q st"
  by (simp add: review_logic_def)

lemma review_card_clamp:
  "review_card s \<lparr>card_id = i, quality = max 0 (min 5 q)\<rparr> now1 now2 =
   review_card s \<lparr>card_id = i, quality = q\<rparr> now1 now2"
  by (simp add: review_card_def review_logic_clamp split: sum.splits option.splits)

text \<open>
  C6. A review with a quality above 5 has the result of the review with quality 5, and
  a review with a quality below 0 the result of the review with quality 0: the same
  answer or error, and the same store.
\<close>

theorem quality_clamped:
  "(5 < q \<longrightarrow> review_card s \<lparr>card_id = i, quality = q\<rparr> now1 now2 =
                 review_card s \<lparr>card_id = i, quality = 5\<rparr> now1 now2) \<and>
   (q < 0 \<longrightarrow> review_card s \<lparr>card_id = i, quality = q\<rparr> now1 now2 =
                 review_card s \<lparr>card_id = i, quality = 0\<rparr> now1 now2)"
  using review_card_clamp [of s i q now1 now2] by (auto simp: min_def max_def)

theorem quality_clamped_witness:
  "review_card demo_db \<lparr>card_id = ''00000000000000000000000a'', quality = 7\<rparr> 1000 1001 =
   review_card demo_db \<lparr>card_id = ''00000000000000000000000a'', quality = 5\<rparr> 1000 1001 \<and>
   review_card demo_db \<lparr>card_id = ''00000000000000000000000a'', quality = - 2\<rparr> 1000 1001 =
   review_card demo_db \<lparr>card_id = ''00000000000000000000000a'', quality = 0\<rparr> 1000 1001"
  using quality_clamped [of 7 demo_db "''00000000000000000000000a''" 1000 1001]
    quality_clamped [of "- 2" demo_db "''00000000000000000000000a''" 1000 1001]
  by simp

lemma update_one_frame:
  assumes "\<And>d. f (upd d) = f d"
  shows "map f (update_one flt upd coll) = map f coll"
  using assms by (induction coll) auto

text \<open>
  C10. A review, whatever its outcome, leaves the id, the \<^verbatim>\<open>deck_id\<close>, the front and
  the back of every card as they were, card by card in the order of the collection,
  and leaves the decks as they were: of a card document it writes the five scheduling
  fields only.
\<close>

theorem review_card_frame:
  "map (\<lambda>d. (d_id d, d_deck_id d, d_front d, d_back d))
       (card_collection (snd (review_card s p now1 now2))) =
   map (\<lambda>d. (d_id d, d_deck_id d, d_front d, d_back d)) (card_collection s) \<and>
   deck_collection (snd (review_card s p now1 now2)) = deck_collection s"
  by (auto simp: review_card_def Let_def update_one_frame
           split: sum.splits option.splits prod.splits)

theorem review_card_frame_witness:
  "map (\<lambda>d. (d_id d, d_deck_id d, d_front d, d_back d))
     (card_collection (snd (review_card demo_db
        \<lparr>card_id = ''00000000000000000000000a'', quality = 4\<rparr> 1000 1001))) =
   [(''00000000000000000000000a'', ''0123456789abcdef01234567'', ''front'', ''back''),
    (''00000000000000000000000b'', ''0123456789abcdef01234567'', ''front'', ''back''),
    (''00000000000000000000000c'', ''0123456789abcdef01234567'', ''front'', ''back'')]"
  using review_card_frame
    [of demo_db "\<lparr>card_id = ''00000000000000000000000a'', quality = 4\<rparr>" 1000 1001]
  by (simp add: demo_db_def demo_card_def)

subsection \<open>Listing the cards that are due\<close>

lemma set_list_cards_loop:
  "set (list_cards_loop due_only now items result) =
     set result \<union>
     {it \<in> set items.
        due_only \<longrightarrow> (case d_next_review it of None \<Rightarrow> True | Some nr \<Rightarrow> nr \<le> now)}"
  by (induction due_only now items result rule: list_cards_loop.induct)
     (auto split: option.splits)

text \<open>
  C8. With \<^verbatim>\<open>due_only\<close> set, a card document is in the list if and only if it is a
  card of the store, of the deck asked for when one is asked for, and its
  \<^verbatim>\<open>next_review\<close> is absent or not after \<open>now\<close>.
\<close>

theorem due_only_filter:
  "it \<in> set (list_cards s deck_id' True now) \<longleftrightarrow>
     it \<in> set (card_collection s) \<and>
     (case deck_id' of None \<Rightarrow> True | Some v \<Rightarrow> v = [] \<or> d_deck_id it = v) \<and>
     (case d_next_review it of None \<Rightarrow> True | Some nr \<Rightarrow> nr \<le> now)"
  by (auto simp: list_cards_def Let_def set_list_cards_loop get_documents_card_def
           split: option.splits)

theorem due_only_filter_witness:
  "demo_card ''00000000000000000000000a'' (Some 50) \<in> set (list_cards demo_db None True 100) \<and>
   demo_card ''00000000000000000000000b'' None \<in> set (list_cards demo_db None True 100) \<and>
   demo_card ''00000000000000000000000c'' (Some 200) \<notin> set (list_cards demo_db None True 100)"
  using due_only_filter [of "demo_card ''00000000000000000000000a'' (Some 50)" demo_db None 100]
    due_only_filter [of "demo_card ''00000000000000000000000b'' None" demo_db None 100]
    due_only_filter [of "demo_card ''00000000000000000000000c'' (Some 200)" demo_db None 100]
  by (simp add: demo_db_def demo_card_def)

subsection \<open>Creating a card\<close>

text \<open>
  C9, as the spec states it: a creation whose \<^verbatim>\<open>deck_id\<close> is the id of no deck fails
  with 404. The text \<^verbatim>\<open>abc\<close> is the id of no deck, and \<^verbatim>\<open>ObjectId("abc")\<close> raises
  \<^verbatim>\<open>InvalidId\<close> on line 96, before any deck is looked up: the failure is not the
  \<^verbatim>\<open>HTTPException\<close> with status 404.
\<close>

theorem create_card_not_found_counterexample:
  "fst (create_card demo_db ''00000000000000000000000d'' (new_Card ''abc'' ''front'' ''back''))
     \<noteq> Inl (HTTPException 404 ''Deck not found'')"
  by (simp add: create_card_def new_Card_def ObjectId_def)

text \<open>
  C9, amended: a creation whose \<^verbatim>\<open>deck_id\<close> is the text of an id that no deck has
  fails with 404 and leaves the store as it was; and every creation that fails leaves
  the store as it was.
\<close>

theorem create_card_not_found:
  "(\<forall>x. ObjectId (deck_id c) = Inr x \<longrightarrow>
        (\<forall>d \<in> set (deck_collection s). deck_oid d \<noteq> x) \<longrightarrow>
        create_card s new_id c = (Inl (HTTPException 404 ''Deck not found''), s)) \<and>
   (\<forall>e. fst (create_card s new_id c) = Inl e \<longrightarrow> snd (create_card s new_id c) = s)"
  by (auto simp: create_card_def count_documents_def filter_empty_conv
                 create_document_card_def
           split: sum.splits if_splits)

lemma ObjectId_upper: "ObjectId ''FFFFFFFFFFFFFFFFFFFFFFFF'' = Inr ''ffffffffffffffffffffffff''"
  by (simp add: ObjectId_def hexdigit_def lower_hex_def)

theorem create_card_not_found_witness:
  "create_card demo_db ''00000000000000000000000d''
     (new_Card ''FFFFFFFFFFFFFFFFFFFFFFFF'' ''front'' ''back'')
   = (Inl (HTTPException 404 ''Deck not found''), demo_db)"
  using create_card_not_found
    [of "new_Card ''FFFFFFFFFFFFFFFFFFFFFFFF'' ''front'' ''back''" demo_db
        "''00000000000000000000000d''"]
  by (simp add: new_Card_def ObjectId_upper demo_db_def)

end
